theory Spec2Isabelle
  imports Main "HOL-Library.AList"
begin

section \<open>Go values\<close>

text \<open>
  A Go \<open>error\<close> value is modelled by the text that \<open>err.Error()\<close> returns. A call that
  returns \<open>(T, error)\<close> is a value of \<open>go_error + T\<close>, with \<open>Inl\<close> the non-nil error.
\<close>

datatype go_error = GoError string

fun Error :: "go_error \<Rightarrow> string" where
  "Error (GoError m) = m"

text \<open>
  A Go \<open>map[K]V\<close> is an association list with pairwise distinct keys; the order of the
  list is the order in which a \<open>range\<close> loop happens to visit the entries. An assignment
  \<open>m[k] = v\<close> is \<open>AList.update k v m\<close>.
\<close>

type_synonym ('k, 'v) go_map = "('k \<times> 'v) list"

section \<open>Values of the Terraform plugin framework\<close>

text \<open>\<open>types.String\<close> and \<open>types.Bool\<close>: null, unknown or a known value.\<close>

datatype tf_string = StringNull | StringUnknown | StringValue string

fun ValueString :: "tf_string \<Rightarrow> string" where
  "ValueString (StringValue s) = s"
| "ValueString StringNull = []"
| "ValueString StringUnknown = []"

datatype tf_bool = BoolNull | BoolUnknown | BoolValue bool

fun ValueBool :: "tf_bool \<Rightarrow> bool" where
  "ValueBool (BoolValue b) = b"
| "ValueBool BoolNull = False"
| "ValueBool BoolUnknown = False"

datatype severity = SeverityError | SeverityWarning

record diagnostic =
  Severity :: severity
  Summary :: string
  Detail :: string

type_synonym diagnostics = "diagnostic list"

definition HasError :: "diagnostics \<Rightarrow> bool" where
  "HasError ds = list_ex (\<lambda>d. Severity d = SeverityError) ds"

text \<open>\<open>Diagnostics.Append\<close> keeps the order and leaves out a diagnostic already present.\<close>

fun Append :: "diagnostics \<Rightarrow> diagnostics \<Rightarrow> diagnostics" where
  "Append ds [] = ds"
| "Append ds (d # rest) = Append (if d \<in> set ds then ds else ds @ [d]) rest"

definition AddError :: "string \<Rightarrow> string \<Rightarrow> diagnostics \<Rightarrow> diagnostics" where
  "AddError summary detail ds =
     Append ds [\<lparr>Severity = SeverityError, Summary = summary, Detail = detail\<rparr>]"

section \<open>The provider: \<open>AzurexProvider.Configure\<close>\<close>

record AzurexProviderModel =
  cfg_SubscriptionID :: tf_string
  cfg_TenantID :: tf_string
  cfg_ClientID :: tf_string
  cfg_ClientSecret :: tf_string

text \<open>
  \<open>AzurexContext\<close>. The fields \<open>MicrosoftGraph\<close> and \<open>ResourceManager\<close> are never assigned
  by the provider; a nil pointer or interface is \<open>None\<close>.
\<close>

record ('cred, 'auth) AzurexContext =
  ctx_SubscriptionID :: string
  Graph :: "'auth option"
  Management :: "'auth option"
  MicrosoftGraph :: "'auth option"
  ResourceManager :: "'auth option"
  IdentityCreds :: "'cred option"

text \<open>\<open>environments.Environment\<close>, as far as the provider reads it.\<close>

record 'api environment =
  env_MicrosoftGraph :: 'api
  env_ResourceManager :: 'api

text \<open>\<open>auth.Credentials\<close>: the fields the provider writes; every other field keeps its zero value.\<close>

record 'api Credentials =
  Environment :: "'api environment"
  cred_TenantID :: string
  cred_ClientID :: string
  EnableAuthenticatingUsingClientSecret :: bool
  cred_ClientSecret :: string
  EnableAuthenticatingUsingClientCertificate :: bool
  ClientCertificatePath :: string
  EnableAuthenticationUsingOIDC :: bool
  OIDCAssertionToken :: string

record WorkloadIdentityCredentialOptions =
  wi_TenantID :: string
  wi_ClientID :: string
  TokenFilePath :: string

text \<open>
  What \<open>Configure\<close> calls outside this repository: the process environment and the file
  system (\<open>os.Getenv\<close>, \<open>os.ReadFile\<close>), \<open>environments.FromName\<close>, the credential
  constructors of \<open>azidentity\<close> and \<open>auth.NewAuthorizerFromCredentials\<close>. They are
  parameters of the model. An unset environment variable reads as the empty string.
\<close>

record ('api, 'cred, 'cert, 'key, 'auth) provider_deps =
  Getenv :: "string \<Rightarrow> string"
  ReadFile :: "string \<Rightarrow> go_error + string"
  FromName :: "string \<Rightarrow> go_error + 'api environment"
  NewClientSecretCredential :: "string \<Rightarrow> string \<Rightarrow> string \<Rightarrow> go_error + 'cred"
  ParseCertificates :: "string \<Rightarrow> go_error + ('cert \<times> 'key)"
  NewClientCertificateCredential :: "string \<Rightarrow> string \<Rightarrow> 'cert \<Rightarrow> 'key \<Rightarrow> go_error + 'cred"
  NewWorkloadIdentityCredential :: "WorkloadIdentityCredentialOptions \<Rightarrow> go_error + 'cred"
  NewAuthorizerFromCredentials :: "'api Credentials \<Rightarrow> 'api \<Rightarrow> go_error + 'auth"

text \<open>\<open>req.Config.Get(ctx, &data)\<close> yields diagnostics and the decoded configuration.\<close>

record ConfigureRequest =
  Config_Get :: "diagnostics \<times> AzurexProviderModel"

record ('cred, 'auth) ConfigureResponse =
  resp_Diagnostics :: diagnostics
  DataSourceData :: "('cred, 'auth) AzurexContext option"
  ResourceData :: "('cred, 'auth) AzurexContext option"

text \<open>
  The result of \<open>Configure\<close> is the list of \<open>tflog.Debug\<close> messages it wrote, in order, and
  the response. A \<open>return\<close> after \<open>AddError\<close> leaves both data fields nil.
\<close>

definition failed ::
  "string list \<Rightarrow> diagnostics \<Rightarrow> string list \<times> ('cred, 'auth) ConfigureResponse" where
  "failed lg ds = (lg, \<lparr>resp_Diagnostics = ds, DataSourceData = None, ResourceData = None\<rparr>)"

definition credential_error ::
  "string list \<Rightarrow> diagnostics \<Rightarrow> go_error \<Rightarrow> string list \<times> ('cred, 'auth) ConfigureResponse" where
  "credential_error lg ds err =
     failed lg (AddError ''unable to configure credential'' (''got: '' @ Error err) ds)"

text \<open>Lines 203 to 221 of the provider: the two authorizers and the provider data.\<close>

definition Configure_authorizers ::
  "('api, 'cred, 'cert, 'key, 'auth) provider_deps \<Rightarrow> AzurexProviderModel \<Rightarrow> 'api environment \<Rightarrow>
   'api Credentials \<Rightarrow> ('cred, 'auth) AzurexContext \<Rightarrow> string list \<Rightarrow> diagnostics \<Rightarrow>
   string list \<times> ('cred, 'auth) ConfigureResponse" where
  "Configure_authorizers deps data env credentials providerContext lg ds =
     (case NewAuthorizerFromCredentials deps credentials (env_MicrosoftGraph env) of
        Inl err \<Rightarrow> credential_error lg ds err
      | Inr graphAuthorizer \<Rightarrow>
          (case NewAuthorizerFromCredentials deps credentials (env_ResourceManager env) of
             Inl err \<Rightarrow> credential_error lg ds err
           | Inr mgmtAuthorizer \<Rightarrow>
               (let pc = providerContext
                      \<lparr>Management := Some mgmtAuthorizer,
                       Graph := Some graphAuthorizer,
                       ctx_SubscriptionID := ValueString (cfg_SubscriptionID data)\<rparr>
                in (lg, \<lparr>resp_Diagnostics = ds, DataSourceData = Some pc, ResourceData = Some pc\<rparr>))))"

text \<open>Lines 147 to 201: the chain that builds the token credential.\<close>

definition Configure_credentials ::
  "('api, 'cred, 'cert, 'key, 'auth) provider_deps \<Rightarrow> AzurexProviderModel \<Rightarrow> 'api environment \<Rightarrow>
   'api Credentials \<Rightarrow> ('cred, 'auth) AzurexContext \<Rightarrow> diagnostics \<Rightarrow>
   string list \<times> ('cred, 'auth) ConfigureResponse" where
  "Configure_credentials deps data env credentials providerContext ds =
     (if Getenv deps ''ARM_CLIENT_SECRET'' \<noteq> [] then
        (let lg = [''authentication type: client secret''];
             credentials = credentials
               \<lparr>EnableAuthenticatingUsingClientSecret := True,
                cred_ClientSecret := Getenv deps ''ARM_CLIENT_SECRET''\<rparr>
         in case NewClientSecretCredential deps (ValueString (cfg_TenantID data))
                   (Getenv deps ''ARM_CLIENT_ID'') (Getenv deps ''ARM_CLIENT_SECRET'') of
              Inl err \<Rightarrow> credential_error lg ds err
            | Inr creds \<Rightarrow>
                Configure_authorizers deps data env credentials
                  (providerContext\<lparr>IdentityCreds := Some creds\<rparr>) lg ds)
      else if Getenv deps ''ARM_CLIENT_CERTIFICATE_FILE'' \<noteq> [] then
        (let lg = [''authentication type: client certificate''];
             credentials = credentials
               \<lparr>EnableAuthenticatingUsingClientCertificate := True,
                ClientCertificatePath := Getenv deps ''ARM_CLIENT_CERTIFICATE_FILE''\<rparr>
         in case ReadFile deps (Getenv deps ''ARM_CLIENT_CERTIFICATE_FILE'') of
              Inl err \<Rightarrow> credential_error lg ds err
            | Inr certData \<Rightarrow>
                (case ParseCertificates deps certData of
                   Inl err \<Rightarrow> credential_error lg ds err
                 | Inr (certs, pkey) \<Rightarrow>
                     (case NewClientCertificateCredential deps (ValueString (cfg_TenantID data))
                             (Getenv deps ''ARM_CLIENT_ID'') certs pkey of
                        Inl err \<Rightarrow> credential_error lg ds err
                      | Inr creds \<Rightarrow>
                          Configure_authorizers deps data env credentials
                            (providerContext\<lparr>IdentityCreds := Some creds\<rparr>) lg ds)))
      else if Getenv deps ''AZURE_FEDERATED_TOKEN_FILE'' \<noteq> [] then
        (let lg = [''authentication type: federated token'']
         in case ReadFile deps (Getenv deps ''AZURE_FEDERATED_TOKEN_FILE'') of
              Inl err \<Rightarrow> credential_error lg ds err
            | Inr token \<Rightarrow>
                (let credentials = credentials
                       \<lparr>EnableAuthenticationUsingOIDC := True, OIDCAssertionToken := token\<rparr>
                 in case NewWorkloadIdentityCredential deps
                           \<lparr>wi_TenantID = ValueString (cfg_TenantID data),
                            wi_ClientID = Getenv deps ''AZURE_CLIENT_ID'',
                            TokenFilePath = Getenv deps ''AZURE_FEDERATED_TOKEN_FILE''\<rparr> of
                      Inl err \<Rightarrow> credential_error lg ds err
                    | Inr creds \<Rightarrow>
                        Configure_authorizers deps data env credentials
                          (providerContext\<lparr>IdentityCreds := Some creds\<rparr>) lg ds))
      else Configure_authorizers deps data env credentials providerContext [] ds)"

text \<open>
  Lines 122 to 127: the environment overrides the configured subscription and tenant when
  it holds a non-empty value.
\<close>

definition env_overrides ::
  "('api, 'cred, 'cert, 'key, 'auth) provider_deps \<Rightarrow> AzurexProviderModel \<Rightarrow> AzurexProviderModel" where
  "env_overrides deps data =
     (let data = (if Getenv deps ''ARM_SUBSCRIPTION_ID'' \<noteq> []
                  then data\<lparr>cfg_SubscriptionID := StringValue (Getenv deps ''ARM_SUBSCRIPTION_ID'')\<rparr>
                  else data);
          data = (if Getenv deps ''ARM_TENANT_ID'' \<noteq> []
                  then data\<lparr>cfg_TenantID := StringValue (Getenv deps ''ARM_TENANT_ID'')\<rparr>
                  else data)
      in data)"

text \<open>Lines 139 to 145: the credentials before an authentication mode is chosen.\<close>

definition initial_credentials ::
  "('api, 'cred, 'cert, 'key, 'auth) provider_deps \<Rightarrow> AzurexProviderModel \<Rightarrow> 'api environment \<Rightarrow>
   'api Credentials" where
  "initial_credentials deps data env =
     \<lparr>Environment = env,
      cred_TenantID = ValueString (cfg_TenantID data),
      cred_ClientID = Getenv deps ''ARM_CLIENT_ID'',
      EnableAuthenticatingUsingClientSecret = True,
      cred_ClientSecret = [],
      EnableAuthenticatingUsingClientCertificate = False,
      ClientCertificatePath = [],
      EnableAuthenticationUsingOIDC = False,
      OIDCAssertionToken = []\<rparr>"

text \<open>The zero value of \<open>AzurexContext\<close>.\<close>

definition empty_context :: "('cred, 'auth) AzurexContext" where
  "empty_context =
     \<lparr>ctx_SubscriptionID = [], Graph = None, Management = None,
      MicrosoftGraph = None, ResourceManager = None, IdentityCreds = None\<rparr>"

text \<open>\<open>Configure\<close>, lines 110 to 222. The configuration is decoded twice.\<close>

definition Configure ::
  "('api, 'cred, 'cert, 'key, 'auth) provider_deps \<Rightarrow> ConfigureRequest \<Rightarrow>
   string list \<times> ('cred, 'auth) ConfigureResponse" where
  "Configure deps req =
     (let ds = Append [] (fst (Config_Get req)) in
      if HasError ds then failed [] ds
      else
        (let ds = Append ds (fst (Config_Get req));
             data = env_overrides deps (snd (Config_Get req))
         in if HasError ds then failed [] ds
            else
              (case FromName deps ''global'' of
                 Inl err \<Rightarrow>
                   failed [] (AddError ''unable to set environment'' (''got: '' @ Error err) ds)
               | Inr env \<Rightarrow>
                   Configure_credentials deps data env (initial_credentials deps data env)
                     empty_context ds)))"

section \<open>The tag-inheritance settings client\<close>

record TagInheritanceProperties =
  PreferContainerTags :: bool

record TagInheritanceRequest =
  Kind :: string
  req_Properties :: TagInheritanceProperties

record TagInheritanceResponse =
  resp_Id :: string
  Name :: string
  Type :: string
  Scope :: string
  resp_Properties :: TagInheritanceProperties

datatype http_method = MethodGet | MethodPut

datatype json = JString string | JBool bool | JObject "(string \<times> json) list"

text \<open>
  A parsed URL: what precedes the query, and the query values (\<open>URL.Query()\<close>, written
  back by \<open>Encode\<close>). A \<open>policy.Request\<close>: method, URL, headers and the JSON body.
\<close>

record url =
  Location :: string
  Query :: "(string, string) go_map"

record request =
  Method :: http_method
  URL :: url
  Header :: "(string, string list) go_map"
  Body :: "json option"

text \<open>
  \<open>SettingsClient\<close> holds the \<open>arm.Client\<close>: its endpoint and its pipeline. The pipeline acts
  on the outside world \<open>'w\<close> (the Azure service) and returns an HTTP response \<open>'r\<close> or an
  error. The functions of \<open>azcore/runtime\<close> whose result depends on text parsing
  (\<open>JoinPaths\<close>, the URL parser inside \<open>NewRequest\<close>, \<open>UnmarshalAsJSON\<close>) are parameters too.
\<close>

record ('w, 'r) SettingsClient =
  Endpoint :: string
  Pipeline_Do :: "request \<Rightarrow> 'w \<Rightarrow> (go_error + 'r) \<times> 'w"
  JoinPaths :: "string \<Rightarrow> string \<Rightarrow> string"
  ParseURL :: "string \<Rightarrow> go_error + url"
  UnmarshalAsJSON :: "'r \<Rightarrow> go_error + TagInheritanceResponse"

text \<open>\<open>runtime.NewRequest\<close>: a request with the given method for the parsed endpoint, or the parser's error.\<close>

definition NewRequest :: "('w, 'r) SettingsClient \<Rightarrow> http_method \<Rightarrow> string \<Rightarrow> go_error + request" where
  "NewRequest client httpMethod endpoint =
     (case ParseURL client endpoint of
        Inl err \<Rightarrow> Inl err
      | Inr u \<Rightarrow> Inr \<lparr>Method = httpMethod, URL = u, Header = [], Body = None\<rparr>)"

text \<open>The JSON object of a \<open>TagInheritanceRequest\<close>, by its field tags, in declaration order.\<close>

definition TagInheritanceRequest_json :: "TagInheritanceRequest \<Rightarrow> json" where
  "TagInheritanceRequest_json params =
     JObject [(''kind'', JString (Kind params)),
              (''properties'',
               JObject [(''preferContainerTags'',
                         JBool (PreferContainerTags (req_Properties params)))])]"

text \<open>
  \<open>runtime.MarshalAsJSON\<close> on a \<open>TagInheritanceRequest\<close>: encoding a struct of a string and a
  boolean has no error case; the body and its content type are set.
\<close>

definition MarshalAsJSON :: "request \<Rightarrow> TagInheritanceRequest \<Rightarrow> go_error + request" where
  "MarshalAsJSON req params =
     Inr (req\<lparr>Body := Some (TagInheritanceRequest_json params),
              Header := AList.update ''Content-Type'' [''application/json''] (Header req)\<rparr>)"

definition set_api_version :: "request \<Rightarrow> request" where
  "set_api_version req =
     req\<lparr>URL := (URL req)\<lparr>Query := AList.update ''api-version'' ''2022-10-01-preview'' (Query (URL req))\<rparr>\<rparr>"

definition set_accept :: "request \<Rightarrow> request" where
  "set_accept req = req\<lparr>Header := AList.update ''Accept'' [''application/json''] (Header req)\<rparr>"

definition getTagInheritanceRequest :: "('w, 'r) SettingsClient \<Rightarrow> go_error + request" where
  "getTagInheritanceRequest client =
     (let urlPath = ''/providers/Microsoft.CostManagement/settings/taginheritance'' in
      case NewRequest client MethodGet (JoinPaths client (Endpoint client) urlPath) of
        Inl err \<Rightarrow> Inl err
      | Inr req \<Rightarrow> Inr (set_accept (set_api_version req)))"

definition createTagInheritanceRequest ::
  "('w, 'r) SettingsClient \<Rightarrow> bool \<Rightarrow> go_error + request" where
  "createTagInheritanceRequest client preferContainerTags =
     (let params = \<lparr>Kind = ''taginheritance'',
                     req_Properties = \<lparr>PreferContainerTags = preferContainerTags\<rparr>\<rparr>;
          urlPath = ''/providers/Microsoft.CostManagement/settings/taginheritance'' in
      case NewRequest client MethodPut (JoinPaths client (Endpoint client) urlPath) of
        Inl err \<Rightarrow> Inl err
      | Inr req \<Rightarrow> MarshalAsJSON (set_accept (set_api_version req)) params)"

definition handleTagInheritanceResponse ::
  "('w, 'r) SettingsClient \<Rightarrow> 'r \<Rightarrow> go_error + TagInheritanceResponse" where
  "handleTagInheritanceResponse client resp =
     (case UnmarshalAsJSON client resp of
        Inl err \<Rightarrow> Inl err
      | Inr TagInheritance \<Rightarrow> Inr TagInheritance)"

definition GetTagInheritance ::
  "('w, 'r) SettingsClient \<Rightarrow> 'w \<Rightarrow> (go_error + TagInheritanceResponse) \<times> 'w" where
  "GetTagInheritance client w =
     (case getTagInheritanceRequest client of
        Inl err \<Rightarrow> (Inl err, w)
      | Inr req \<Rightarrow>
          (case Pipeline_Do client req w of
             (Inl err, w') \<Rightarrow> (Inl err, w')
           | (Inr resp, w') \<Rightarrow> (handleTagInheritanceResponse client resp, w')))"

definition EnableTagInheritance ::
  "('w, 'r) SettingsClient \<Rightarrow> bool \<Rightarrow> 'w \<Rightarrow> (go_error + TagInheritanceResponse) \<times> 'w" where
  "EnableTagInheritance client preferContainerTags w =
     (case createTagInheritanceRequest client preferContainerTags of
        Inl err \<Rightarrow> (Inl err, w)
      | Inr req \<Rightarrow>
          (case Pipeline_Do client req w of
             (Inl err, w') \<Rightarrow> (Inl err, w')
           | (Inr resp, w') \<Rightarrow> (handleTagInheritanceResponse client resp, w')))"

definition DisableTagInheritance ::
  "('w, 'r) SettingsClient \<Rightarrow> 'w \<Rightarrow> (go_error + TagInheritanceResponse) \<times> 'w" where
  "DisableTagInheritance client w =
     (case createTagInheritanceRequest client False of
        Inl err \<Rightarrow> (Inl err, w)
      | Inr req \<Rightarrow>
          (case Pipeline_Do client req w of
             (Inl err, w') \<Rightarrow> (Inl err, w')
           | (Inr resp, w') \<Rightarrow> (handleTagInheritanceResponse client resp, w')))"

section \<open>The subscription-tags resource\<close>

text \<open>\<open>armresources.TagsResource\<close> and \<open>armresources.Tags\<close>: a nil pointer or nil map is \<open>None\<close>.\<close>

record Tags =
  tags_Tags :: "(string, string option) go_map option"

record TagsResource =
  tr_Properties :: "Tags option"

text \<open>The two methods of \<open>armresources.TagsClient\<close> that the resource calls, acting on the outside world.\<close>

record 'w TagsClient =
  GetAtScope :: "string \<Rightarrow> 'w \<Rightarrow> (go_error + TagsResource) \<times> 'w"
  CreateOrUpdateAtScope :: "string \<Rightarrow> TagsResource \<Rightarrow> 'w \<Rightarrow> (go_error + unit) \<times> 'w"

text \<open>\<open>SubscriptionTagsResource\<close>; its \<open>SubscriptionsClient\<close> is never called and is left out.\<close>

record ('w, 'r) SubscriptionTagsResource =
  Settings :: "('w, 'r) SettingsClient"
  TagsCl :: "'w TagsClient"
  SubscriptionID :: string

text \<open>\<open>SubscriptionTagsResourceModel\<close>; \<open>'t\<close> is the framework's \<open>types.Map\<close>.\<close>

record 't SubscriptionTagsResourceModel =
  Tags :: 't
  InheritTags :: tf_bool
  PreferContainers :: tf_bool
  RemoveTags :: tf_bool
  RemoteInheritTags :: tf_bool

text \<open>
  The framework's conversions between a \<open>types.Map\<close> and a Go map
  (\<open>Tags.ElementsAs\<close>, \<open>types.MapValueFrom\<close>) and \<open>resp.State.Set\<close>, each with its diagnostics.
\<close>

record 't framework =
  ElementsAs :: "'t \<Rightarrow> diagnostics \<times> (string, string) go_map"
  MapValueFrom :: "(string, string) go_map \<Rightarrow> diagnostics \<times> 't"
  State_Set :: "'t SubscriptionTagsResourceModel \<Rightarrow> diagnostics"

text \<open>
  The client methods a lifecycle operation invokes are recorded, in order, next to the
  world they act on.
\<close>

datatype call =
    Call_CreateOrUpdateAtScope string TagsResource
  | Call_GetAtScope string
  | Call_GetTagInheritance
  | Call_EnableTagInheritance bool
  | Call_DisableTagInheritance

text \<open>
  The outcome of a lifecycle operation: the diagnostics, the value handed to
  \<open>resp.State.Set\<close> (\<open>None\<close> when the operation returned before that line, or has none),
  the calls issued and the world they left.
\<close>

record ('w, 't) outcome =
  Diagnostics :: diagnostics
  State :: "'t SubscriptionTagsResourceModel option"
  calls :: "call list"
  world :: 'w

text \<open>The verb \<open>%q\<close> on a string of printable ASCII: quotes around it, \<open>"\<close> and \<open>\\<close> escaped.\<close>

fun go_quote_chars :: "string \<Rightarrow> string" where
  "go_quote_chars [] = []"
| "go_quote_chars (c # cs) =
     (if c = CHR 0x22 \<or> c = CHR 0x5C then CHR 0x5C # c # go_quote_chars cs
      else c # go_quote_chars cs)"

definition go_quote :: "string \<Rightarrow> string" where
  "go_quote s = CHR 0x22 # go_quote_chars s @ [CHR 0x22]"

text \<open>The loop of \<open>applyTags\<close>: every value becomes a pointer to a copy of it.\<close>

fun applyTags_loop ::
  "(string, string) go_map \<Rightarrow> (string, string option) go_map \<Rightarrow> (string, string option) go_map" where
  "applyTags_loop [] azureTags = azureTags"
| "applyTags_loop ((k, v) # rest) azureTags = applyTags_loop rest (AList.update k (Some v) azureTags)"

definition applyTags ::
  "('w, 'r) SubscriptionTagsResource \<Rightarrow> string \<Rightarrow> (string, string) go_map \<Rightarrow> 'w \<Rightarrow> call list \<Rightarrow>
   go_error option \<times> 'w \<times> call list" where
  "applyTags r subscriptionID tagMap w cs =
     (let azureTags = applyTags_loop tagMap [];
          scope = ''/subscriptions/'' @ subscriptionID;
          body = \<lparr>tr_Properties = Some \<lparr>tags_Tags = Some azureTags\<rparr>\<rparr>;
          cs = cs @ [Call_CreateOrUpdateAtScope scope body]
      in case CreateOrUpdateAtScope (TagsCl r) scope body w of
           (Inl err, w') \<Rightarrow>
             (Some (GoError (''failed to set tags for subscription '' @ go_quote subscriptionID
                             @ '': '' @ Error err)), w', cs)
         | (Inr _, w') \<Rightarrow> (None, w', cs))"

definition stop :: "diagnostics \<Rightarrow> call list \<Rightarrow> 'w \<Rightarrow> ('w, 't) outcome" where
  "stop ds cs w = \<lparr>Diagnostics = ds, State = None, calls = cs, world = w\<rparr>"

definition set_state ::
  "'t framework \<Rightarrow> diagnostics \<Rightarrow> 't SubscriptionTagsResourceModel \<Rightarrow> call list \<Rightarrow> 'w \<Rightarrow>
   ('w, 't) outcome" where
  "set_state fw ds data cs w =
     \<lparr>Diagnostics = Append ds (State_Set fw data), State = Some data, calls = cs, world = w\<rparr>"

text \<open>What \<open>Create\<close>, \<open>Read\<close> and \<open>Update\<close> each do with a response whose identifier is not empty.\<close>

definition sync_inheritance ::
  "TagInheritanceResponse \<Rightarrow> 't SubscriptionTagsResourceModel \<Rightarrow> 't SubscriptionTagsResourceModel" where
  "sync_inheritance tagInheritance data =
     data\<lparr>InheritTags := BoolValue True,
          PreferContainers := BoolValue (PreferContainerTags (resp_Properties tagInheritance))\<rparr>"

text \<open>\<open>Create\<close>; \<open>plan\<close> is the result of \<open>req.Plan.Get(ctx, &data)\<close>.\<close>

definition Create ::
  "'t framework \<Rightarrow> ('w, 'r) SubscriptionTagsResource \<Rightarrow>
   diagnostics \<times> 't SubscriptionTagsResourceModel \<Rightarrow> 'w \<Rightarrow> ('w, 't) outcome" where
  "Create fw r plan w =
     (let ds = Append [] (fst plan); data = snd plan in
      if HasError ds then stop ds [] w
      else
        (let ds = Append ds (fst (ElementsAs fw (Tags data)));
             tfTags = snd (ElementsAs fw (Tags data)) in
         if HasError ds then stop ds [] w
         else
           (case applyTags r (SubscriptionID r) tfTags w [] of
              (Some err, w, cs) \<Rightarrow>
                stop (AddError ''Error applying tags to subscription'' (Error err) ds) cs w
            | (None, w, cs) \<Rightarrow>
                if ValueBool (InheritTags data) then
                  (let cs = cs @ [Call_EnableTagInheritance (ValueBool (PreferContainers data))] in
                   case EnableTagInheritance (Settings r) (ValueBool (PreferContainers data)) w of
                     (Inl err, w) \<Rightarrow>
                       stop (AddError ''Error configuring tag inheritance'' (Error err) ds) cs w
                   | (Inr tagInheritance, w) \<Rightarrow>
                       set_state fw ds
                         (if resp_Id tagInheritance \<noteq> [] then sync_inheritance tagInheritance data
                          else data) cs w)
                else set_state fw ds data cs w)))"

text \<open>The loop of \<open>Read\<close> over the tags of the response: a nil value is passed over.\<close>

fun Read_loop ::
  "(string, string option) go_map \<Rightarrow> (string, string) go_map \<Rightarrow> (string, string) go_map" where
  "Read_loop [] tfTags = tfTags"
| "Read_loop ((k, v) # rest) tfTags =
     Read_loop rest (case v of None \<Rightarrow> tfTags | Some s \<Rightarrow> AList.update k s tfTags)"

definition Read_tags :: "TagsResource \<Rightarrow> (string, string) go_map" where
  "Read_tags tagsResponse =
     (case tr_Properties tagsResponse of
        None \<Rightarrow> []
      | Some props \<Rightarrow>
          (case tags_Tags props of
             None \<Rightarrow> []
           | Some ts \<Rightarrow> Read_loop ts []))"

text \<open>\<open>Read\<close>; \<open>state\<close> is the result of \<open>req.State.Get(ctx, &data)\<close>.\<close>

definition Read ::
  "'t framework \<Rightarrow> ('w, 'r) SubscriptionTagsResource \<Rightarrow>
   diagnostics \<times> 't SubscriptionTagsResourceModel \<Rightarrow> 'w \<Rightarrow> ('w, 't) outcome" where
  "Read fw r state w =
     (let ds = Append [] (fst state); data = snd state in
      if HasError ds then stop ds [] w
      else
        (let scope = ''/subscriptions/'' @ SubscriptionID r;
             cs = [Call_GetAtScope scope] in
         case GetAtScope (TagsCl r) scope w of
           (Inl err, w) \<Rightarrow>
             stop (AddError ''Error reading subscription tags''
                     (''Unable to read tags for subscription '' @ SubscriptionID r @ '': '' @ Error err)
                     ds) cs w
         | (Inr tagsResponse, w) \<Rightarrow>
             (let tfTags = Read_tags tagsResponse;
                  ds = Append ds (fst (MapValueFrom fw tfTags));
                  tagsValue = snd (MapValueFrom fw tfTags) in
              if HasError ds then stop ds cs w
              else
                (let data = data\<lparr>Tags := tagsValue\<rparr>;
                     cs = cs @ [Call_GetTagInheritance] in
                 case GetTagInheritance (Settings r) w of
                   (Inl err, w) \<Rightarrow>
                     stop (AddError ''Error getting tag inheritance settings'' (Error err) ds) cs w
                 | (Inr tagInheritance, w) \<Rightarrow>
                     set_state fw ds
                       (if resp_Id tagInheritance \<noteq> [] then sync_inheritance tagInheritance data
                        else data\<lparr>InheritTags := BoolValue False\<rparr>) cs w))))"

text \<open>\<open>Update\<close>; \<open>plan\<close> and \<open>state\<close> are the results of \<open>req.Plan.Get\<close> and \<open>req.State.Get\<close>.\<close>

definition Update ::
  "'t framework \<Rightarrow> ('w, 'r) SubscriptionTagsResource \<Rightarrow>
   diagnostics \<times> 't SubscriptionTagsResourceModel \<Rightarrow>
   diagnostics \<times> 't SubscriptionTagsResourceModel \<Rightarrow> 'w \<Rightarrow> ('w, 't) outcome" where
  "Update fw r plan state w =
     (let ds = Append (Append [] (fst plan)) (fst state);
          data = snd plan; oldData = snd state in
      if HasError ds then stop ds [] w
      else
        (let ds = Append ds (fst (ElementsAs fw (Tags data)));
             tfTags = snd (ElementsAs fw (Tags data)) in
         if HasError ds then stop ds [] w
         else
           (case applyTags r (SubscriptionID r) tfTags w [] of
              (Some err, w, cs) \<Rightarrow>
                stop (AddError ''Error updating subscription tags'' (Error err) ds) cs w
            | (None, w, cs) \<Rightarrow>
                if ValueBool (InheritTags data) then
                  (let cs = cs @ [Call_EnableTagInheritance (ValueBool (PreferContainers data))] in
                   case EnableTagInheritance (Settings r) (ValueBool (PreferContainers data)) w of
                     (Inl err, w) \<Rightarrow>
                       stop (AddError ''Error updating tag inheritance settings'' (Error err) ds) cs w
                   | (Inr tagInheritance, w) \<Rightarrow>
                       set_state fw ds
                         (if resp_Id tagInheritance \<noteq> [] then sync_inheritance tagInheritance data
                          else data) cs w)
                else if ValueBool (InheritTags oldData) \<and> \<not> ValueBool (InheritTags data) then
                  (let cs = cs @ [Call_DisableTagInheritance] in
                   case DisableTagInheritance (Settings r) w of
                     (Inl err, w) \<Rightarrow>
                       stop (AddError ''Error disabling tag inheritance'' (Error err) ds) cs w
                   | (Inr _, w) \<Rightarrow>
                       set_state fw ds (data\<lparr>InheritTags := BoolValue False\<rparr>) cs w)
                else set_state fw ds data cs w)))"

text \<open>The second half of \<open>Delete\<close>: the inheritance teardown.\<close>

definition Delete_inheritance ::
  "('w, 'r) SubscriptionTagsResource \<Rightarrow> 't SubscriptionTagsResourceModel \<Rightarrow> diagnostics \<Rightarrow>
   call list \<Rightarrow> 'w \<Rightarrow> ('w, 't) outcome" where
  "Delete_inheritance r data ds cs w =
     (if ValueBool (RemoteInheritTags data) \<and> ValueBool (InheritTags data) then
        (let cs = cs @ [Call_DisableTagInheritance] in
         case DisableTagInheritance (Settings r) w of
           (Inl err, w) \<Rightarrow> stop (AddError ''Error disabling tag inheritance'' (Error err) ds) cs w
         | (Inr _, w) \<Rightarrow> stop ds cs w)
      else stop ds cs w)"

text \<open>\<open>Delete\<close>; \<open>state\<close> is the result of \<open>req.State.Get(ctx, &data)\<close>. It sets no state.\<close>

definition Delete ::
  "('w, 'r) SubscriptionTagsResource \<Rightarrow> diagnostics \<times> 't SubscriptionTagsResourceModel \<Rightarrow> 'w \<Rightarrow>
   ('w, 't) outcome" where
  "Delete r state w =
     (let ds = Append [] (fst state); data = snd state in
      if HasError ds then stop ds [] w
      else if ValueBool (RemoveTags data) then
        (case applyTags r (SubscriptionID r) [] w [] of
           (Some err, w, cs) \<Rightarrow>
             stop (AddError ''Error removing subscription tags'' (Error err) ds) cs w
         | (None, w, cs) \<Rightarrow> Delete_inheritance r data ds cs w)
      else Delete_inheritance r data ds [] w)"

subsection \<open>Schema and import\<close>

datatype attribute_type = MapOfStringType | BoolType

text \<open>
  A \<open>schema.MapAttribute\<close> or \<open>schema.BoolAttribute\<close>; \<open>Default\<close> is the static default when
  the attribute declares one.
\<close>

record Attribute =
  AttrType :: attribute_type
  Required :: bool
  Computed :: bool
  Default :: "bool option"
  MarkdownDescription :: string

definition Schema :: "(string, Attribute) go_map" where
  "Schema =
     [(''tags'',
       \<lparr>AttrType = MapOfStringType, Required = True, Computed = False, Default = None,
        MarkdownDescription = ''Tags to apply to a subscription''\<rparr>),
      (''inherit_tags'',
       \<lparr>AttrType = BoolType, Required = False, Computed = True, Default = Some True,
        MarkdownDescription = ''Enables Inherit Tags (does not disable inherit tags on destroy)''\<rparr>),
      (''prefer_containers'',
       \<lparr>AttrType = BoolType, Required = False, Computed = True, Default = Some True,
        MarkdownDescription =
          ''Prefer subscription/resource group tags over resource tags when there's a conflict''\<rparr>),
      (''ondelete_remove_tags'',
       \<lparr>AttrType = BoolType, Required = False, Computed = True, Default = Some True,
        MarkdownDescription = ''Remove tags on delete of resource''\<rparr>),
      (''ondelete_remove_inherit_tags'',
       \<lparr>AttrType = BoolType, Required = False, Computed = True, Default = Some False,
        MarkdownDescription = ''Remove tag inheritance on resource deletion''\<rparr>)]"

text \<open>
  \<open>resource.ImportStatePassthroughID\<close> of the framework writes the identifier to the root
  attribute with \<open>State.SetAttribute\<close>. The state is written against the schema of the
  resource: a root attribute that the schema does not declare is refused with an error
  diagnostic and nothing is written. The state is the list of root attributes written.
\<close>

definition ImportStatePassthroughID ::
  "(string, Attribute) go_map \<Rightarrow> string \<Rightarrow> string \<Rightarrow> diagnostics \<times> (string, string) go_map" where
  "ImportStatePassthroughID schema attrPath ident =
     (if map_of schema attrPath = None
      then (AddError ''State Write Error''
              (''could not find attribute or block '' @ go_quote attrPath @ '' in schema'') [], [])
      else ([], [(attrPath, ident)]))"

definition ImportState :: "string \<Rightarrow> diagnostics \<times> (string, string) go_map" where
  "ImportState ident = ImportStatePassthroughID Schema ''subscription_id'' ident"

section \<open>Sample inputs\<close>

text \<open>
  An environment without authentication variables, a file system without files, and
  libraries that accept whatever they are given.
\<close>

definition sample_deps :: "(string \<Rightarrow> string) \<Rightarrow> (string, string, string, string, string) provider_deps" where
  "sample_deps getenv =
     \<lparr>Getenv = getenv,
      ReadFile = (\<lambda>path. Inl (GoError (''open '' @ path @ '': no such file or directory''))),
      FromName = (\<lambda>name. Inr \<lparr>env_MicrosoftGraph = ''graph'', env_ResourceManager = ''management''\<rparr>),
      NewClientSecretCredential = (\<lambda>tenant client secret. Inr (''secret:'' @ client)),
      ParseCertificates = (\<lambda>certData. Inr (certData, certData)),
      NewClientCertificateCredential = (\<lambda>tenant client certs pkey. Inr (''certificate:'' @ client)),
      NewWorkloadIdentityCredential = (\<lambda>options. Inr (''workload:'' @ wi_ClientID options)),
      NewAuthorizerFromCredentials = (\<lambda>credentials api. Inr api)\<rparr>"

text \<open>The same, with an authorizer builder that refuses credentials without any secret material.\<close>

definition strict_deps :: "(string \<Rightarrow> string) \<Rightarrow> (string, string, string, string, string) provider_deps" where
  "strict_deps getenv =
     (sample_deps getenv)
       \<lparr>NewAuthorizerFromCredentials :=
          (\<lambda>credentials api.
             if cred_ClientSecret credentials = [] \<and> ClientCertificatePath credentials = []
                \<and> OIDCAssertionToken credentials = []
             then Inl (GoError ''no Authorizer could be configured, please check your configuration'')
             else Inr api)\<rparr>"

definition no_env :: "string \<Rightarrow> string" where
  "no_env name = []"

definition secret_env :: "string \<Rightarrow> string" where
  "secret_env name =
     (if name = ''ARM_CLIENT_SECRET'' then ''s3cret''
      else if name = ''ARM_CLIENT_ID'' then ''app''
      else if name = ''ARM_CLIENT_CERTIFICATE_FILE'' then ''/cert.pem''
      else [])"

definition sample_config :: ConfigureRequest where
  "sample_config =
     \<lparr>Config_Get =
        ([], \<lparr>cfg_SubscriptionID = StringValue ''1b75aa77-e080-4f83-b893-564dc9df7de5'',
              cfg_TenantID = StringValue ''tenant'',
              cfg_ClientID = StringValue ''configured-client'',
              cfg_ClientSecret = StringValue ''configured-secret''\<rparr>)\<rparr>"

text \<open>
  A world that holds the tags of the subscription and its inheritance setting; the
  pipeline answers a PUT by storing the setting and a GET by returning it.
\<close>

record azure =
  az_tags :: "(string, string option) go_map"
  az_inheritance :: TagInheritanceResponse

definition configured :: "bool \<Rightarrow> TagInheritanceResponse" where
  "configured prefer =
     \<lparr>resp_Id = ''/subscriptions/s/providers/Microsoft.CostManagement/settings/taginheritance'',
      Name = ''taginheritance'', Type = ''Microsoft.CostManagement/Settings'',
      Scope = ''Subscription'', resp_Properties = \<lparr>PreferContainerTags = prefer\<rparr>\<rparr>"

definition unconfigured :: TagInheritanceResponse where
  "unconfigured =
     \<lparr>resp_Id = [], Name = [], Type = [], Scope = [],
      resp_Properties = \<lparr>PreferContainerTags = False\<rparr>\<rparr>"

definition sample_settings :: "(azure, TagInheritanceResponse) SettingsClient" where
  "sample_settings =
     \<lparr>Endpoint = ''https://management.azure.com'',
      Pipeline_Do = (\<lambda>req w.
        case Body req of
          Some (JObject [_, (_, JObject [(_, JBool prefer)])]) \<Rightarrow>
            (Inr (configured prefer), w\<lparr>az_inheritance := configured prefer\<rparr>)
        | _ \<Rightarrow> (Inr (az_inheritance w), w)),
      JoinPaths = (\<lambda>root p. root @ p),
      ParseURL = (\<lambda>u. Inr \<lparr>Location = u, Query = []\<rparr>),
      UnmarshalAsJSON = (\<lambda>resp. Inr resp)\<rparr>"

definition sample_resource :: "(azure, TagInheritanceResponse) SubscriptionTagsResource" where
  "sample_resource =
     \<lparr>Settings = sample_settings,
      TagsCl = \<lparr>GetAtScope = (\<lambda>scope w.
                   (Inr \<lparr>tr_Properties = Some \<lparr>tags_Tags = Some (az_tags w)\<rparr>\<rparr>, w)),
                CreateOrUpdateAtScope = (\<lambda>scope body w.
                   (Inr (), w\<lparr>az_tags := (case tr_Properties body of
                                               None \<Rightarrow> []
                                             | Some p \<Rightarrow> (case tags_Tags p of None \<Rightarrow> [] | Some ts \<Rightarrow> ts))\<rparr>))\<rparr>,
      SubscriptionID = ''s''\<rparr>"

definition sample_framework :: "(string, string) go_map framework" where
  "sample_framework =
     \<lparr>ElementsAs = (\<lambda>t. ([], t)), MapValueFrom = (\<lambda>m. ([], m)), State_Set = (\<lambda>data. [])\<rparr>"

definition sample_model :: "bool \<Rightarrow> bool \<Rightarrow> (string, string) go_map SubscriptionTagsResourceModel" where
  "sample_model inherit remove =
     \<lparr>Tags = [(''tag1'', ''value1''), (''tag2'', ''value2'')],
      InheritTags = BoolValue inherit, PreferContainers = BoolValue True,
      RemoveTags = BoolValue remove, RemoteInheritTags = BoolValue True\<rparr>"

definition sample_azure :: "TagInheritanceResponse \<Rightarrow> azure" where
  "sample_azure setting =
     \<lparr>az_tags = [(''tag1'', Some ''value1''), (''stale'', None)], az_inheritance = setting\<rparr>"

section \<open>Observations on the calls issued\<close>

fun is_inheritance_call :: "call \<Rightarrow> bool" where
  "is_inheritance_call Call_GetTagInheritance = True"
| "is_inheritance_call (Call_EnableTagInheritance _) = True"
| "is_inheritance_call Call_DisableTagInheritance = True"
| "is_inheritance_call _ = False"

fun is_tag_write :: "call \<Rightarrow> bool" where
  "is_tag_write (Call_CreateOrUpdateAtScope _ _) = True"
| "is_tag_write _ = False"

section \<open>Diagnostics\<close>

lemma set_Append: "set (Append ds new) = set ds \<union> set new"
  by (induction ds new rule: Append.induct) auto

lemma HasError_Nil [simp]: "\<not> HasError []"
  by (simp add: HasError_def)

lemma HasError_Append: "HasError (Append ds new) = (HasError ds \<or> HasError new)"
  by (auto simp: HasError_def list_ex_iff set_Append)

lemma HasError_AddError: "HasError (AddError summary detail ds)"
  unfolding AddError_def HasError_Append by (simp add: HasError_def)

section \<open>Provider configuration\<close>

lemma HasError_credential_error:
  "HasError (resp_Diagnostics (snd (credential_error lg ds err)))"
  by (simp add: credential_error_def failed_def HasError_AddError)




lemma Configure_authorizers_outcome:
  "HasError (resp_Diagnostics (snd (Configure_authorizers deps data env credentials pc lg ds)))
   \<or> (\<exists>pc'. ResourceData (snd (Configure_authorizers deps data env credentials pc lg ds)) = Some pc'
            \<and> IdentityCreds pc' = IdentityCreds pc)"
  by (simp add: Configure_authorizers_def Let_def HasError_credential_error split: sum.splits)


lemma Configure_authorizers_rejected:
  "NewAuthorizerFromCredentials deps credentials (env_MicrosoftGraph env) = Inl err
   \<Longrightarrow> HasError (resp_Diagnostics (snd (Configure_authorizers deps data env credentials pc lg ds)))"
  by (simp add: Configure_authorizers_def HasError_credential_error)

lemma Configure_authorizers_reads:
  "cfg_SubscriptionID data = cfg_SubscriptionID data'
   \<Longrightarrow> Configure_authorizers deps data env credentials pc lg ds
       = Configure_authorizers deps data' env credentials pc lg ds"
  by (simp add: Configure_authorizers_def split: sum.splits)

lemma Configure_credentials_reads:
  assumes "cfg_SubscriptionID data = cfg_SubscriptionID data'"
    and "cfg_TenantID data = cfg_TenantID data'"
  shows "Configure_credentials deps data env credentials pc ds
       = Configure_credentials deps data' env credentials pc ds"
  unfolding Configure_credentials_def Let_def assms(2)
  by (simp add: Configure_authorizers_reads [OF assms(1)] split: sum.splits prod.splits)

text \<open>
  C1. The configured \<open>client_id\<close> and \<open>client_secret\<close> are never read: whatever the
  configuration declares for them, \<open>Configure\<close> gives the same result. With
  \<open>ARM_CLIENT_ID\<close> and \<open>ARM_CLIENT_SECRET\<close> unset, the credentials handed to the authorizer
  builder carry an empty client identifier and an empty secret although the configuration
  declares both, while the configured subscription identifier is used.
\<close>

theorem Configure_ignores_configured_client:
  "Configure deps \<lparr>Config_Get = (ds, data\<lparr>cfg_ClientID := a, cfg_ClientSecret := b\<rparr>)\<rparr>
     = Configure deps \<lparr>Config_Get = (ds, data)\<rparr>
   \<and> map_option (\<lambda>pc. (ctx_SubscriptionID pc, Graph pc, IdentityCreds pc))
       (ResourceData (snd (Configure
          ((sample_deps no_env)
             \<lparr>NewAuthorizerFromCredentials :=
                (\<lambda>credentials api. Inr (cred_ClientID credentials @ '':'' @ cred_ClientSecret credentials))\<rparr>)
          sample_config)))
     = Some (''1b75aa77-e080-4f83-b893-564dc9df7de5'', Some '':'', None)"
proof
  show "Configure deps \<lparr>Config_Get = (ds, data\<lparr>cfg_ClientID := a, cfg_ClientSecret := b\<rparr>)\<rparr>
     = Configure deps \<lparr>Config_Get = (ds, data)\<rparr>"
    unfolding Configure_def Let_def
    by (auto simp: env_overrides_def initial_credentials_def Let_def split: sum.splits
             intro!: Configure_credentials_reads)
next
  show "map_option (\<lambda>pc. (ctx_SubscriptionID pc, Graph pc, IdentityCreds pc))
       (ResourceData (snd (Configure
          ((sample_deps no_env)
             \<lparr>NewAuthorizerFromCredentials :=
                (\<lambda>credentials api. Inr (cred_ClientID credentials @ '':'' @ cred_ClientSecret credentials))\<rparr>)
          sample_config)))
     = Some (''1b75aa77-e080-4f83-b893-564dc9df7de5'', Some '':'', None)"
    by (simp add: Configure_def Configure_credentials_def Configure_authorizers_def Let_def
          env_overrides_def initial_credentials_def empty_context_def
          sample_deps_def no_env_def sample_config_def)
qed

lemma Configure_reaches_credentials:
  assumes "\<not> HasError (fst (Config_Get req))" and "FromName deps ''global'' = Inr env"
  shows "Configure deps req =
           Configure_credentials deps (env_overrides deps (snd (Config_Get req))) env
             (initial_credentials deps (env_overrides deps (snd (Config_Get req))) env)
             empty_context
             (Append (Append [] (fst (Config_Get req))) (fst (Config_Get req)))"
  using assms by (simp add: Configure_def Let_def HasError_Append)


lemma initial_credentials_empty:
  "cred_ClientSecret (initial_credentials deps data env) = []"
  "ClientCertificatePath (initial_credentials deps data env) = []"
  "OIDCAssertionToken (initial_credentials deps data env) = []"
  by (simp_all add: initial_credentials_def)

lemma Configure_stops_early:
  assumes "HasError (fst (Config_Get req)) \<or> FromName deps ''global'' = Inl err"
  shows "HasError (resp_Diagnostics (snd (Configure deps req)))"
  using assms
  by (auto simp: Configure_def Let_def HasError_Append failed_def HasError_AddError
           split: sum.splits)

lemma Configure_outcome:
  "HasError (resp_Diagnostics (snd (Configure deps req)))
   \<or> (\<exists>env. \<not> HasError (fst (Config_Get req)) \<and> FromName deps ''global'' = Inr env)"
  using Configure_stops_early [of req deps] by (cases "FromName deps ''global''") auto

lemma Configure_credentials_built:
  fixes deps :: "('api, 'cred, 'cert, 'key, 'auth) provider_deps"
    and pc :: "('cred, 'auth) AzurexContext"
  assumes "Getenv deps ''ARM_CLIENT_SECRET'' \<noteq> [] \<or> Getenv deps ''ARM_CLIENT_CERTIFICATE_FILE'' \<noteq> []
           \<or> Getenv deps ''AZURE_FEDERATED_TOKEN_FILE'' \<noteq> []"
  shows "HasError (resp_Diagnostics (snd (Configure_credentials deps data env credentials pc ds)))
       \<or> (\<exists>pc' c. ResourceData (snd (Configure_credentials deps data env credentials pc ds)) = Some pc'
                 \<and> IdentityCreds pc' = Some c)"
proof -
  define P where "P r \<longleftrightarrow> HasError (resp_Diagnostics (snd r))
       \<or> (\<exists>pc' c. ResourceData (snd r) = Some pc' \<and> IdentityCreds pc' = Some c)"
    for r :: "string list \<times> ('cred, 'auth) ConfigureResponse"
  have err: "P (credential_error lg ds e)" for lg e
    by (simp add: P_def HasError_credential_error)
  have auth: "P (Configure_authorizers deps data env cr (pc\<lparr>IdentityCreds := Some c\<rparr>) lg ds)"
    for cr c lg
    using Configure_authorizers_outcome [of deps data env cr "pc\<lparr>IdentityCreds := Some c\<rparr>" lg ds]
    by (auto simp: P_def)
  have "P (Configure_credentials deps data env credentials pc ds)"
    using assms
    by (simp add: Configure_credentials_def Let_def err auth split: sum.splits prod.splits)
  then show ?thesis by (simp add: P_def)
qed

lemma Configure_credentials_unreadable:
  "Getenv deps ''ARM_CLIENT_SECRET'' = [] \<Longrightarrow>
   (Getenv deps ''ARM_CLIENT_CERTIFICATE_FILE'' \<noteq> [] \<and>
      ReadFile deps (Getenv deps ''ARM_CLIENT_CERTIFICATE_FILE'') = Inl err)
   \<or> (Getenv deps ''ARM_CLIENT_CERTIFICATE_FILE'' = [] \<and>
      Getenv deps ''AZURE_FEDERATED_TOKEN_FILE'' \<noteq> [] \<and>
      ReadFile deps (Getenv deps ''AZURE_FEDERATED_TOKEN_FILE'') = Inl err) \<Longrightarrow>
   HasError (resp_Diagnostics (snd (Configure_credentials deps data env credentials pc ds)))"
  by (auto simp: Configure_credentials_def Let_def HasError_credential_error)

lemma Configure_credentials_none:
  "Getenv deps ''ARM_CLIENT_SECRET'' = [] \<Longrightarrow> Getenv deps ''ARM_CLIENT_CERTIFICATE_FILE'' = [] \<Longrightarrow>
   Getenv deps ''AZURE_FEDERATED_TOKEN_FILE'' = [] \<Longrightarrow>
   Configure_credentials deps data env credentials pc ds
     = Configure_authorizers deps data env credentials pc [] ds"
  by (simp add: Configure_credentials_def)

text \<open>
  The three cases of the credential chain, for any behaviour of the libraries: a variable
  is set, the selected file cannot be read, or no variable is set. In the last case the
  chain builds no credential and reports nothing itself, and the outcome is that of the
  authorizer builder.
\<close>

lemma Configure_credential_cases:
  "((Getenv deps ''ARM_CLIENT_SECRET'' \<noteq> [] \<or> Getenv deps ''ARM_CLIENT_CERTIFICATE_FILE'' \<noteq> []
      \<or> Getenv deps ''AZURE_FEDERATED_TOKEN_FILE'' \<noteq> []) \<longrightarrow>
      HasError (resp_Diagnostics (snd (Configure deps req)))
      \<or> (\<exists>pc c. ResourceData (snd (Configure deps req)) = Some pc \<and> IdentityCreds pc = Some c))
   \<and> (Getenv deps ''ARM_CLIENT_SECRET'' = [] \<and>
      ((Getenv deps ''ARM_CLIENT_CERTIFICATE_FILE'' \<noteq> [] \<and>
          ReadFile deps (Getenv deps ''ARM_CLIENT_CERTIFICATE_FILE'') = Inl err)
       \<or> (Getenv deps ''ARM_CLIENT_CERTIFICATE_FILE'' = [] \<and>
          Getenv deps ''AZURE_FEDERATED_TOKEN_FILE'' \<noteq> [] \<and>
          ReadFile deps (Getenv deps ''AZURE_FEDERATED_TOKEN_FILE'') = Inl err)) \<longrightarrow>
      HasError (resp_Diagnostics (snd (Configure deps req))))
   \<and> (Getenv deps ''ARM_CLIENT_SECRET'' = [] \<and> Getenv deps ''ARM_CLIENT_CERTIFICATE_FILE'' = []
      \<and> Getenv deps ''AZURE_FEDERATED_TOKEN_FILE'' = [] \<longrightarrow>
      (HasError (resp_Diagnostics (snd (Configure deps req)))
       \<or> (\<exists>pc. ResourceData (snd (Configure deps req)) = Some pc \<and> IdentityCreds pc = None))
      \<and> ((\<forall>credentials api.
             cred_ClientSecret credentials = [] \<and> ClientCertificatePath credentials = []
             \<and> OIDCAssertionToken credentials = [] \<longrightarrow>
             (\<exists>e. NewAuthorizerFromCredentials deps credentials api = Inl e)) \<longrightarrow>
          HasError (resp_Diagnostics (snd (Configure deps req)))))"
proof (cases "HasError (resp_Diagnostics (snd (Configure deps req)))")
  case True
  then show ?thesis by simp
next
  case False
  with Configure_outcome [of deps req] obtain env
    where ok: "\<not> HasError (fst (Config_Get req))" "FromName deps ''global'' = Inr env"
    by blast
  define data where "data = env_overrides deps (snd (Config_Get req))"
  define credentials where "credentials = initial_credentials deps data env"
  define ds where "ds = Append (Append [] (fst (Config_Get req))) (fst (Config_Get req))"
  have c: "Configure deps req = Configure_credentials deps data env credentials empty_context ds"
    unfolding data_def credentials_def ds_def by (rule Configure_reaches_credentials [OF ok])
  have e: "cred_ClientSecret credentials = []" "ClientCertificatePath credentials = []"
          "OIDCAssertionToken credentials = []"
    unfolding credentials_def by (rule initial_credentials_empty)+
  have pc: "IdentityCreds empty_context = None"
    by (simp add: empty_context_def)
  note built = Configure_credentials_built [of deps data env credentials empty_context ds]
  have one: "(Getenv deps ''ARM_CLIENT_SECRET'' \<noteq> [] \<or> Getenv deps ''ARM_CLIENT_CERTIFICATE_FILE'' \<noteq> []
      \<or> Getenv deps ''AZURE_FEDERATED_TOKEN_FILE'' \<noteq> []) \<longrightarrow>
      HasError (resp_Diagnostics (snd (Configure deps req)))
      \<or> (\<exists>pc c. ResourceData (snd (Configure deps req)) = Some pc \<and> IdentityCreds pc = Some c)"
    unfolding c using built by blast
  have two: "Getenv deps ''ARM_CLIENT_SECRET'' = [] \<and>
      ((Getenv deps ''ARM_CLIENT_CERTIFICATE_FILE'' \<noteq> [] \<and>
          ReadFile deps (Getenv deps ''ARM_CLIENT_CERTIFICATE_FILE'') = Inl err)
       \<or> (Getenv deps ''ARM_CLIENT_CERTIFICATE_FILE'' = [] \<and>
          Getenv deps ''AZURE_FEDERATED_TOKEN_FILE'' \<noteq> [] \<and>
          ReadFile deps (Getenv deps ''AZURE_FEDERATED_TOKEN_FILE'') = Inl err)) \<longrightarrow>
      HasError (resp_Diagnostics (snd (Configure deps req)))"
    unfolding c using Configure_credentials_unreadable [of deps err data env credentials empty_context ds]
    by blast
  have three: "Getenv deps ''ARM_CLIENT_SECRET'' = [] \<and> Getenv deps ''ARM_CLIENT_CERTIFICATE_FILE'' = []
      \<and> Getenv deps ''AZURE_FEDERATED_TOKEN_FILE'' = [] \<longrightarrow>
      (HasError (resp_Diagnostics (snd (Configure deps req)))
       \<or> (\<exists>pc. ResourceData (snd (Configure deps req)) = Some pc \<and> IdentityCreds pc = None))
      \<and> ((\<forall>credentials api.
             cred_ClientSecret credentials = [] \<and> ClientCertificatePath credentials = []
             \<and> OIDCAssertionToken credentials = [] \<longrightarrow>
             (\<exists>e. NewAuthorizerFromCredentials deps credentials api = Inl e)) \<longrightarrow>
          HasError (resp_Diagnostics (snd (Configure deps req))))"
  proof (intro impI conjI)
    assume n: "Getenv deps ''ARM_CLIENT_SECRET'' = [] \<and> Getenv deps ''ARM_CLIENT_CERTIFICATE_FILE'' = []
      \<and> Getenv deps ''AZURE_FEDERATED_TOKEN_FILE'' = []"
    then have a: "Configure deps req = Configure_authorizers deps data env credentials empty_context [] ds"
      unfolding c by (simp add: Configure_credentials_none)
    show "HasError (resp_Diagnostics (snd (Configure deps req)))
       \<or> (\<exists>pc. ResourceData (snd (Configure deps req)) = Some pc \<and> IdentityCreds pc = None)"
      unfolding a using Configure_authorizers_outcome [of deps data env credentials empty_context "[]" ds] pc
      by auto
    assume "\<forall>credentials api.
             cred_ClientSecret credentials = [] \<and> ClientCertificatePath credentials = []
             \<and> OIDCAssertionToken credentials = [] \<longrightarrow>
             (\<exists>e. NewAuthorizerFromCredentials deps credentials api = Inl e)"
    with e obtain e' where "NewAuthorizerFromCredentials deps credentials (env_MicrosoftGraph env) = Inl e'"
      by blast
    then show "HasError (resp_Diagnostics (snd (Configure deps req)))"
      unfolding a by (rule Configure_authorizers_rejected)
  qed
  from one two three show ?thesis by blast
qed

lemma Configure_authorizers_error_no_data:
  assumes "\<not> HasError ds"
    and "HasError (resp_Diagnostics (snd (Configure_authorizers deps data env credentials pc lg ds)))"
  shows "ResourceData (snd (Configure_authorizers deps data env credentials pc lg ds)) = None
       \<and> DataSourceData (snd (Configure_authorizers deps data env credentials pc lg ds)) = None"
  using assms
  by (auto simp: Configure_authorizers_def Let_def credential_error_def failed_def split: sum.splits)

lemma Configure_credentials_error_no_data:
  assumes "\<not> HasError ds"
    and "HasError (resp_Diagnostics (snd (Configure_credentials deps data env credentials pc ds)))"
  shows "ResourceData (snd (Configure_credentials deps data env credentials pc ds)) = None
       \<and> DataSourceData (snd (Configure_credentials deps data env credentials pc ds)) = None"
proof -
  have auth: "HasError (resp_Diagnostics (snd (Configure_authorizers deps data env cr pc' lg ds)))
      \<Longrightarrow> ResourceData (snd (Configure_authorizers deps data env cr pc' lg ds)) = None
        \<and> DataSourceData (snd (Configure_authorizers deps data env cr pc' lg ds)) = None" for cr pc' lg
    by (rule Configure_authorizers_error_no_data [OF assms(1)])
  have err: "ResourceData (snd (credential_error lg ds e)) = None
        \<and> DataSourceData (snd (credential_error lg ds e)) = None" for lg e
    by (simp add: credential_error_def failed_def)
  show ?thesis
    using assms(2)
    by (simp add: Configure_credentials_def Let_def err auth split: sum.splits prod.splits if_splits)
qed

lemma Configure_error_no_data:
  assumes "HasError (resp_Diagnostics (snd (Configure deps req)))"
  shows "ResourceData (snd (Configure deps req)) = None
       \<and> DataSourceData (snd (Configure deps req)) = None"
  using assms
  by (auto simp: Configure_def Let_def failed_def HasError_Append
           dest: Configure_credentials_error_no_data [rotated] split: sum.splits if_splits)

text \<open>
  C2. \<open>auth.NewAuthorizerFromCredentials\<close> refuses credentials that carry no client secret,
  no certificate path and no OIDC token; this contract of the library is the hypothesis.
  Then, in every environment, \<open>Configure\<close> either reports an error or hands on provider data
  that hold a token credential, and with an error it hands on no provider data at all. In
  particular it reports an error when none of \<open>ARM_CLIENT_SECRET\<close>,
  \<open>ARM_CLIENT_CERTIFICATE_FILE\<close> and \<open>AZURE_FEDERATED_TOKEN_FILE\<close> is set, and when the
  certificate or token file that the chain selects cannot be read.
\<close>

theorem Configure_credential_or_error:
  assumes "\<forall>credentials api.
             cred_ClientSecret credentials = [] \<and> ClientCertificatePath credentials = []
             \<and> OIDCAssertionToken credentials = [] \<longrightarrow>
             (\<exists>e. NewAuthorizerFromCredentials deps credentials api = Inl e)"
  shows "(HasError (resp_Diagnostics (snd (Configure deps req)))
          \<or> (\<exists>pc c. ResourceData (snd (Configure deps req)) = Some pc \<and> IdentityCreds pc = Some c))
       \<and> (HasError (resp_Diagnostics (snd (Configure deps req))) \<longrightarrow>
            ResourceData (snd (Configure deps req)) = None
          \<and> DataSourceData (snd (Configure deps req)) = None)
       \<and> (Getenv deps ''ARM_CLIENT_SECRET'' = [] \<and> Getenv deps ''ARM_CLIENT_CERTIFICATE_FILE'' = []
          \<and> Getenv deps ''AZURE_FEDERATED_TOKEN_FILE'' = [] \<longrightarrow>
            HasError (resp_Diagnostics (snd (Configure deps req))))
       \<and> (Getenv deps ''ARM_CLIENT_SECRET'' = [] \<and>
            ((Getenv deps ''ARM_CLIENT_CERTIFICATE_FILE'' \<noteq> [] \<and>
                ReadFile deps (Getenv deps ''ARM_CLIENT_CERTIFICATE_FILE'') = Inl err)
             \<or> (Getenv deps ''ARM_CLIENT_CERTIFICATE_FILE'' = [] \<and>
                Getenv deps ''AZURE_FEDERATED_TOKEN_FILE'' \<noteq> [] \<and>
                ReadFile deps (Getenv deps ''AZURE_FEDERATED_TOKEN_FILE'') = Inl err)) \<longrightarrow>
            HasError (resp_Diagnostics (snd (Configure deps req))))"
proof -
  note cases = Configure_credential_cases [of deps req err]
  have none: "Getenv deps ''ARM_CLIENT_SECRET'' = [] \<and> Getenv deps ''ARM_CLIENT_CERTIFICATE_FILE'' = []
          \<and> Getenv deps ''AZURE_FEDERATED_TOKEN_FILE'' = [] \<longrightarrow>
            HasError (resp_Diagnostics (snd (Configure deps req)))"
    using cases assms by blast
  have some: "HasError (resp_Diagnostics (snd (Configure deps req)))
          \<or> (\<exists>pc c. ResourceData (snd (Configure deps req)) = Some pc \<and> IdentityCreds pc = Some c)"
    using cases none by blast
  have stop: "HasError (resp_Diagnostics (snd (Configure deps req))) \<longrightarrow>
            ResourceData (snd (Configure deps req)) = None
          \<and> DataSourceData (snd (Configure deps req)) = None"
    using Configure_error_no_data [of deps req] by blast
  from some stop none cases show ?thesis by blast
qed

theorem Configure_credential_or_error_witness:
  "HasError (resp_Diagnostics (snd (Configure (strict_deps no_env) sample_config)))
   \<and> ResourceData (snd (Configure (strict_deps no_env) sample_config)) = None
   \<and> map_option IdentityCreds (ResourceData (snd (Configure (strict_deps secret_env) sample_config)))
       = Some (Some ''secret:app'')"
proof -
  have refuses: "\<forall>credentials api.
             cred_ClientSecret credentials = [] \<and> ClientCertificatePath credentials = []
             \<and> OIDCAssertionToken credentials = [] \<longrightarrow>
             (\<exists>e. NewAuthorizerFromCredentials (strict_deps getenv) credentials api = Inl e)" for getenv
    by (simp add: strict_deps_def sample_deps_def)
  have none: "Getenv (strict_deps no_env) ''ARM_CLIENT_SECRET'' = []
     \<and> Getenv (strict_deps no_env) ''ARM_CLIENT_CERTIFICATE_FILE'' = []
     \<and> Getenv (strict_deps no_env) ''AZURE_FEDERATED_TOKEN_FILE'' = []"
    by (simp add: strict_deps_def sample_deps_def no_env_def)
  have ok: "\<not> HasError (resp_Diagnostics (snd (Configure (strict_deps secret_env) sample_config)))"
    by (simp add: Configure_def Configure_credentials_def Configure_authorizers_def Let_def
          env_overrides_def initial_credentials_def empty_context_def
          strict_deps_def sample_deps_def secret_env_def sample_config_def)
  have built: "ResourceData (snd (Configure (strict_deps secret_env) sample_config)) = Some pc
       \<Longrightarrow> IdentityCreds pc = Some ''secret:app''" for pc
    by (auto simp: Configure_def Configure_credentials_def Configure_authorizers_def Let_def
          env_overrides_def initial_credentials_def empty_context_def
          strict_deps_def sample_deps_def secret_env_def sample_config_def)
  from Configure_credential_or_error [OF refuses, of no_env sample_config "GoError []"] none
  have "HasError (resp_Diagnostics (snd (Configure (strict_deps no_env) sample_config)))
      \<and> ResourceData (snd (Configure (strict_deps no_env) sample_config)) = None"
    by blast
  moreover from Configure_credential_or_error [OF refuses, of secret_env sample_config "GoError []"] ok
  obtain pc c where "ResourceData (snd (Configure (strict_deps secret_env) sample_config)) = Some pc"
    and "IdentityCreds pc = Some c"
    by blast
  ultimately show ?thesis using built by auto
qed



section \<open>The settings client\<close>



section \<open>The resource\<close>

text \<open>
  C4. \<open>ImportState\<close> writes the identifier to the root attribute \<open>subscription_id\<close>, which
  the schema of the resource does not declare: the write is refused, the import of the
  identifier \<open>1b75aa77-e080-4f83-b893-564dc9df7de5\<close> ends with an error and sets nothing.
\<close>

theorem ImportState_undeclared_attribute:
  "map_of Schema ''subscription_id'' = None
   \<and> map fst Schema = [''tags'', ''inherit_tags'', ''prefer_containers'', ''ondelete_remove_tags'',
                        ''ondelete_remove_inherit_tags'']
   \<and> HasError (fst (ImportState ''1b75aa77-e080-4f83-b893-564dc9df7de5''))
   \<and> snd (ImportState ''1b75aa77-e080-4f83-b893-564dc9df7de5'') = []"
  by (simp add: ImportState_def ImportStatePassthroughID_def Schema_def HasError_AddError)

lemma applyTags_result:
  "(\<exists>err w'. applyTags r sid m w cs =
        (Some err, w', cs @ [Call_CreateOrUpdateAtScope (''/subscriptions/'' @ sid)
             \<lparr>tr_Properties = Some \<lparr>tags_Tags = Some (applyTags_loop m [])\<rparr>\<rparr>]))
   \<or> (\<exists>w'. applyTags r sid m w cs =
        (None, w', cs @ [Call_CreateOrUpdateAtScope (''/subscriptions/'' @ sid)
             \<lparr>tr_Properties = Some \<lparr>tags_Tags = Some (applyTags_loop m [])\<rparr>\<rparr>]))"
  by (simp add: applyTags_def Let_def split: prod.splits sum.splits)

lemma applyTags_cases:
  obtains err w' where "applyTags r sid m w cs =
        (Some err, w', cs @ [Call_CreateOrUpdateAtScope (''/subscriptions/'' @ sid)
             \<lparr>tr_Properties = Some \<lparr>tags_Tags = Some (applyTags_loop m [])\<rparr>\<rparr>])"
  | w' where "applyTags r sid m w cs =
        (None, w', cs @ [Call_CreateOrUpdateAtScope (''/subscriptions/'' @ sid)
             \<lparr>tr_Properties = Some \<lparr>tags_Tags = Some (applyTags_loop m [])\<rparr>\<rparr>])"
  using applyTags_result [of r sid m w cs] by blast

lemma sample_applyTags:
  "applyTags sample_resource ''s'' m w cs =
     (None, w\<lparr>az_tags := applyTags_loop m []\<rparr>,
      cs @ [Call_CreateOrUpdateAtScope ''/subscriptions/s''
              \<lparr>tr_Properties = Some \<lparr>tags_Tags = Some (applyTags_loop m [])\<rparr>\<rparr>])"
  by (simp add: applyTags_def sample_resource_def Let_def)

lemma sample_GetTagInheritance:
  "GetTagInheritance sample_settings w = (Inr (az_inheritance w), w)"
  by (simp add: GetTagInheritance_def getTagInheritanceRequest_def NewRequest_def Let_def
        set_accept_def set_api_version_def handleTagInheritanceResponse_def sample_settings_def)

text \<open>
  C5. When \<open>Read\<close> has fetched the tags and \<open>GetTagInheritance\<close> has answered, the state it
  sets has \<open>inherit_tags\<close> true and \<open>prefer_containers\<close> as the server reports it if the
  identifier of the answer is not empty, and \<open>inherit_tags\<close> false and \<open>prefer_containers\<close> as
  in the prior state if it is empty.
\<close>

theorem Read_inheritance:
  assumes "\<not> HasError (fst state)"
    and "GetAtScope (TagsCl r) (''/subscriptions/'' @ SubscriptionID r) w = (Inr tagsResponse, w1)"
    and "\<not> HasError (fst (MapValueFrom fw (Read_tags tagsResponse)))"
    and "GetTagInheritance (Settings r) w1 = (Inr tagInheritance, w2)"
  shows "\<exists>d. State (Read fw r state w) = Some d \<and>
           (if resp_Id tagInheritance \<noteq> []
            then InheritTags d = BoolValue True \<and>
                 PreferContainers d = BoolValue (PreferContainerTags (resp_Properties tagInheritance))
            else InheritTags d = BoolValue False \<and>
                 PreferContainers d = PreferContainers (snd state))"
  using assms
  by (simp add: Read_def Let_def HasError_Append set_state_def sync_inheritance_def)

theorem Read_inheritance_witness:
  "map_option (\<lambda>d. (InheritTags d, PreferContainers d))
     (State (Read sample_framework sample_resource ([], sample_model False True)
               (sample_azure (configured False))))
     = Some (BoolValue True, BoolValue False)
   \<and> map_option (\<lambda>d. (InheritTags d, PreferContainers d))
     (State (Read sample_framework sample_resource ([], sample_model True True)
               (sample_azure unconfigured)))
     = Some (BoolValue False, BoolValue True)"
proof -
  have a: "\<not> HasError (fst ([], m))" for m :: "(string, string) go_map SubscriptionTagsResourceModel"
    by simp
  have b: "GetAtScope (TagsCl sample_resource) (''/subscriptions/'' @ SubscriptionID sample_resource) w
             = (Inr \<lparr>tr_Properties = Some \<lparr>tags_Tags = Some (az_tags w)\<rparr>\<rparr>, w)" for w
    by (simp add: sample_resource_def)
  have c: "\<not> HasError (fst (MapValueFrom sample_framework m))" for m
    by (simp add: sample_framework_def)
  have d: "GetTagInheritance (Settings sample_resource) w = (Inr (az_inheritance w), w)" for w
    by (simp add: sample_resource_def sample_GetTagInheritance)
  from Read_inheritance [OF a b c d, of "sample_model False True" "sample_azure (configured False)"]
       Read_inheritance [OF a b c d, of "sample_model True True" "sample_azure unconfigured"]
  show ?thesis
    by (auto simp: sample_azure_def configured_def unconfigured_def sample_model_def)
qed

lemma sample_DisableTagInheritance:
  "DisableTagInheritance sample_settings w
     = (Inr (configured False), w\<lparr>az_inheritance := configured False\<rparr>)"
  by (simp add: DisableTagInheritance_def createTagInheritanceRequest_def NewRequest_def Let_def
        MarshalAsJSON_def TagInheritanceRequest_json_def
        set_accept_def set_api_version_def handleTagInheritanceResponse_def sample_settings_def)

lemma Update_world_unchanged: "\<not> ValueBool (InheritTags (snd plan)) \<and> \<not> ValueBool (InheritTags (snd state)) \<and>
      \<not> HasError (fst plan) \<and> \<not> HasError (fst state) \<and>
      \<not> HasError (fst (ElementsAs fw (Tags (snd plan)))) \<longrightarrow>
      world (Update fw r plan state w) =
        fst (snd (applyTags r (SubscriptionID r) (snd (ElementsAs fw (Tags (snd plan)))) w []))"
  by (cases rule: applyTags_cases [of r "SubscriptionID r" "snd (ElementsAs fw (Tags (snd plan)))" w "[]"])
     (simp_all add: Update_def Let_def HasError_Append set_state_def stop_def)

lemma Update_world_disabled: "ValueBool (InheritTags (snd state)) \<and> \<not> ValueBool (InheritTags (snd plan)) \<and>
      \<not> HasError (fst plan) \<and> \<not> HasError (fst state) \<and>
      \<not> HasError (fst (ElementsAs fw (Tags (snd plan)))) \<and>
      fst (applyTags r (SubscriptionID r) (snd (ElementsAs fw (Tags (snd plan)))) w []) = None \<longrightarrow>
      world (Update fw r plan state w) =
        snd (DisableTagInheritance (Settings r)
               (fst (snd (applyTags r (SubscriptionID r) (snd (ElementsAs fw (Tags (snd plan)))) w []))))"
  by (cases rule: applyTags_cases [of r "SubscriptionID r" "snd (ElementsAs fw (Tags (snd plan)))" w "[]"])
     (auto simp: Update_def Let_def HasError_Append set_state_def stop_def
           split: prod.splits sum.splits)

text \<open>
  C6. An \<open>Update\<close> whose desired and prior \<open>inherit_tags\<close> are both false issues no
  inheritance call at all, and the world it leaves is the one the tag call left. An
  \<open>Update\<close> from true to false never issues an enable call and at most one disable call;
  when plan and state are decoded and the tags are applied without error it issues exactly
  the one disable call, and the world it leaves is the one \<open>DisableTagInheritance\<close> makes
  of the world after the tag call.
\<close>

theorem Update_inheritance_calls:
  "(\<not> ValueBool (InheritTags (snd plan)) \<and> \<not> ValueBool (InheritTags (snd state)) \<longrightarrow>
      filter is_inheritance_call (calls (Update fw r plan state w)) = [])
   \<and> (ValueBool (InheritTags (snd state)) \<and> \<not> ValueBool (InheritTags (snd plan)) \<longrightarrow>
      filter is_inheritance_call (calls (Update fw r plan state w)) = [] \<or>
      filter is_inheritance_call (calls (Update fw r plan state w)) = [Call_DisableTagInheritance])
   \<and> (ValueBool (InheritTags (snd state)) \<and> \<not> ValueBool (InheritTags (snd plan)) \<and>
      \<not> HasError (fst plan) \<and> \<not> HasError (fst state) \<and>
      \<not> HasError (fst (ElementsAs fw (Tags (snd plan)))) \<and>
      fst (applyTags r (SubscriptionID r) (snd (ElementsAs fw (Tags (snd plan)))) w []) = None \<longrightarrow>
      filter is_inheritance_call (calls (Update fw r plan state w)) = [Call_DisableTagInheritance])
   \<and> (\<not> ValueBool (InheritTags (snd plan)) \<and> \<not> ValueBool (InheritTags (snd state)) \<and>
      \<not> HasError (fst plan) \<and> \<not> HasError (fst state) \<and>
      \<not> HasError (fst (ElementsAs fw (Tags (snd plan)))) \<longrightarrow>
      world (Update fw r plan state w) =
        fst (snd (applyTags r (SubscriptionID r) (snd (ElementsAs fw (Tags (snd plan)))) w [])))
   \<and> (ValueBool (InheritTags (snd state)) \<and> \<not> ValueBool (InheritTags (snd plan)) \<and>
      \<not> HasError (fst plan) \<and> \<not> HasError (fst state) \<and>
      \<not> HasError (fst (ElementsAs fw (Tags (snd plan)))) \<and>
      fst (applyTags r (SubscriptionID r) (snd (ElementsAs fw (Tags (snd plan)))) w []) = None \<longrightarrow>
      world (Update fw r plan state w) =
        snd (DisableTagInheritance (Settings r)
               (fst (snd (applyTags r (SubscriptionID r) (snd (ElementsAs fw (Tags (snd plan)))) w [])))))"
proof -
  have issued: "(\<not> ValueBool (InheritTags (snd plan)) \<and> \<not> ValueBool (InheritTags (snd state)) \<longrightarrow>
      filter is_inheritance_call (calls (Update fw r plan state w)) = [])
   \<and> (ValueBool (InheritTags (snd state)) \<and> \<not> ValueBool (InheritTags (snd plan)) \<longrightarrow>
      filter is_inheritance_call (calls (Update fw r plan state w)) = [] \<or>
      filter is_inheritance_call (calls (Update fw r plan state w)) = [Call_DisableTagInheritance])
   \<and> (ValueBool (InheritTags (snd state)) \<and> \<not> ValueBool (InheritTags (snd plan)) \<and>
      \<not> HasError (fst plan) \<and> \<not> HasError (fst state) \<and>
      \<not> HasError (fst (ElementsAs fw (Tags (snd plan)))) \<and>
      fst (applyTags r (SubscriptionID r) (snd (ElementsAs fw (Tags (snd plan)))) w []) = None \<longrightarrow>
      filter is_inheritance_call (calls (Update fw r plan state w)) = [Call_DisableTagInheritance])"
    by (cases rule: applyTags_cases [of r "SubscriptionID r" "snd (ElementsAs fw (Tags (snd plan)))" w "[]"])
       (auto simp: Update_def Let_def HasError_Append set_state_def stop_def
             split: prod.splits sum.splits)
  from issued Update_world_unchanged [where plan = plan and state = state and fw = fw and r = r and w = w]
       Update_world_disabled [where plan = plan and state = state and fw = fw and r = r and w = w]
  show ?thesis by blast
qed

theorem Update_inheritance_calls_witness:
  "filter is_inheritance_call
     (calls (Update sample_framework sample_resource ([], sample_model False True)
               ([], sample_model True True) (sample_azure (configured True))))
     = [Call_DisableTagInheritance]
   \<and> filter is_inheritance_call
     (calls (Update sample_framework sample_resource ([], sample_model False True)
               ([], sample_model False True) (sample_azure unconfigured)))
     = []
   \<and> az_inheritance
     (world (Update sample_framework sample_resource ([], sample_model False True)
               ([], sample_model True True) (sample_azure (configured True))))
     = configured False
   \<and> az_inheritance
     (world (Update sample_framework sample_resource ([], sample_model False True)
               ([], sample_model False True) (sample_azure unconfigured)))
     = unconfigured"
proof -
  have old: "ValueBool (InheritTags (snd ([], sample_model True True)))"
    and new: "\<not> ValueBool (InheritTags (snd ([], sample_model False True)))"
    by (simp_all add: sample_model_def)
  have dec: "\<not> HasError (fst ([], m))" for m :: "(string, string) go_map SubscriptionTagsResourceModel"
    by simp
  have el: "\<not> HasError (fst (ElementsAs sample_framework t))" for t
    by (simp add: sample_framework_def)
  have ap: "fst (applyTags sample_resource (SubscriptionID sample_resource) m w []) = None" for m w
    using sample_applyTags [of m w "[]"] by (simp add: sample_resource_def)
  have apw: "az_inheritance (fst (snd (applyTags sample_resource (SubscriptionID sample_resource) m w [])))
               = az_inheritance w" for m w
    using sample_applyTags [of m w "[]"] by (simp add: sample_resource_def)
  have dis: "az_inheritance (snd (DisableTagInheritance (Settings sample_resource) w)) = configured False"
    for w
    by (simp add: sample_resource_def sample_DisableTagInheritance)
  note down = Update_inheritance_calls [of "([], sample_model False True)" "([], sample_model True True)"
         sample_framework sample_resource "sample_azure (configured True)"]
  note off = Update_inheritance_calls [of "([], sample_model False True)" "([], sample_model False True)"
         sample_framework sample_resource "sample_azure unconfigured"]
  have one: "filter is_inheritance_call
     (calls (Update sample_framework sample_resource ([], sample_model False True)
               ([], sample_model True True) (sample_azure (configured True))))
     = [Call_DisableTagInheritance]"
    using down old new dec el ap by simp
  have two: "filter is_inheritance_call
     (calls (Update sample_framework sample_resource ([], sample_model False True)
               ([], sample_model False True) (sample_azure unconfigured)))
     = []"
    using off new by simp
  have "world (Update sample_framework sample_resource ([], sample_model False True)
               ([], sample_model True True) (sample_azure (configured True)))
        = snd (DisableTagInheritance (Settings sample_resource)
               (fst (snd (applyTags sample_resource (SubscriptionID sample_resource)
                  (snd (ElementsAs sample_framework (Tags (snd ([], sample_model False True)))))
                  (sample_azure (configured True)) []))))"
    using down old new dec el ap by simp
  then have three: "az_inheritance
     (world (Update sample_framework sample_resource ([], sample_model False True)
               ([], sample_model True True) (sample_azure (configured True))))
     = configured False"
    by (simp add: dis)
  have "world (Update sample_framework sample_resource ([], sample_model False True)
               ([], sample_model False True) (sample_azure unconfigured))
        = fst (snd (applyTags sample_resource (SubscriptionID sample_resource)
                  (snd (ElementsAs sample_framework (Tags (snd ([], sample_model False True)))))
                  (sample_azure unconfigured) []))"
    using off new dec el by simp
  then have four: "az_inheritance
     (world (Update sample_framework sample_resource ([], sample_model False True)
               ([], sample_model False True) (sample_azure unconfigured)))
     = unconfigured"
    by (simp add: apw sample_azure_def)
  show ?thesis by (intro conjI one two three four)
qed

lemma Delete_world_early: "HasError (fst state) \<longrightarrow> world (Delete r state w) = w"
  by (simp add: Delete_def Let_def HasError_Append stop_def)

lemma Delete_world_keep: "\<not> HasError (fst state) \<and> \<not> ValueBool (RemoveTags (snd state)) \<longrightarrow>
      world (Delete r state w) =
        (if ValueBool (RemoteInheritTags (snd state)) \<and> ValueBool (InheritTags (snd state))
         then snd (DisableTagInheritance (Settings r) w) else w)"
  by (simp add: Delete_def Delete_inheritance_def Let_def HasError_Append stop_def
             split: prod.splits sum.splits)

lemma applyTags_world:
  "applyTags r sid m w cs =
     (case CreateOrUpdateAtScope (TagsCl r) (''/subscriptions/'' @ sid)
             \<lparr>tr_Properties = Some \<lparr>tags_Tags = Some (applyTags_loop m [])\<rparr>\<rparr> w of
        (Inl err, w') \<Rightarrow>
          (Some (GoError (''failed to set tags for subscription '' @ go_quote sid @ '': '' @ Error err)),
           w', cs @ [Call_CreateOrUpdateAtScope (''/subscriptions/'' @ sid)
             \<lparr>tr_Properties = Some \<lparr>tags_Tags = Some (applyTags_loop m [])\<rparr>\<rparr>])
      | (Inr done, w') \<Rightarrow>
          (None, w', cs @ [Call_CreateOrUpdateAtScope (''/subscriptions/'' @ sid)
             \<lparr>tr_Properties = Some \<lparr>tags_Tags = Some (applyTags_loop m [])\<rparr>\<rparr>]))"
  by (simp add: applyTags_def Let_def split: prod.splits sum.splits)

lemma Delete_inheritance_world:
  "world (Delete_inheritance r data ds cs w) =
     (if ValueBool (RemoteInheritTags data) \<and> ValueBool (InheritTags data)
      then snd (DisableTagInheritance (Settings r) w) else w)"
  by (simp add: Delete_inheritance_def Let_def stop_def split: prod.splits sum.splits)

lemma Delete_world_clear: "\<not> HasError (fst state) \<and> ValueBool (RemoveTags (snd state)) \<longrightarrow>
      world (Delete r state w) =
        (case CreateOrUpdateAtScope (TagsCl r) (''/subscriptions/'' @ SubscriptionID r)
                \<lparr>tr_Properties = Some \<lparr>tags_Tags = Some []\<rparr>\<rparr> w of
           (Inl err, w1) \<Rightarrow> w1
         | (Inr done, w1) \<Rightarrow>
             (if ValueBool (RemoteInheritTags (snd state)) \<and> ValueBool (InheritTags (snd state))
              then snd (DisableTagInheritance (Settings r) w1) else w1))"
  unfolding Delete_def Let_def applyTags_world
  by (auto simp: HasError_Append stop_def Delete_inheritance_world split: prod.splits sum.splits)

text \<open>
  C7. \<open>Delete\<close> with \<open>ondelete_remove_tags\<close> false issues no call that writes tags, and the
  tags client does not act on the world: the world it leaves is the one it was given, or
  the one \<open>DisableTagInheritance\<close> makes of it. With \<open>ondelete_remove_tags\<close> true, and the
  state decoded, its one tag call applies the empty mapping at the scope of the
  subscription, and the world it leaves is the one that call makes, followed by the
  disable call when one is due. A disable call is issued only if
  \<open>ondelete_remove_inherit_tags\<close> and \<open>inherit_tags\<close> of the state are both true, and then
  exactly once, provided the state is decoded and the removal of the tags, when asked for,
  did not fail.
\<close>

theorem Delete_calls:
  "(\<not> ValueBool (RemoveTags (snd state)) \<longrightarrow>
      filter is_tag_write (calls (Delete r state w)) = [])
   \<and> (ValueBool (RemoveTags (snd state)) \<and> \<not> HasError (fst state) \<longrightarrow>
      filter is_tag_write (calls (Delete r state w)) =
        [Call_CreateOrUpdateAtScope (''/subscriptions/'' @ SubscriptionID r)
           \<lparr>tr_Properties = Some \<lparr>tags_Tags = Some []\<rparr>\<rparr>])
   \<and> (Call_DisableTagInheritance \<in> set (calls (Delete r state w)) \<longrightarrow>
      ValueBool (RemoteInheritTags (snd state)) \<and> ValueBool (InheritTags (snd state)))
   \<and> (ValueBool (RemoteInheritTags (snd state)) \<and> ValueBool (InheritTags (snd state)) \<and>
      \<not> HasError (fst state) \<and>
      (ValueBool (RemoveTags (snd state)) \<longrightarrow>
         fst (applyTags r (SubscriptionID r) [] w []) = None) \<longrightarrow>
      count_list (calls (Delete r state w)) Call_DisableTagInheritance = 1)
   \<and> (HasError (fst state) \<longrightarrow> world (Delete r state w) = w)
   \<and> (\<not> HasError (fst state) \<and> \<not> ValueBool (RemoveTags (snd state)) \<longrightarrow>
      world (Delete r state w) =
        (if ValueBool (RemoteInheritTags (snd state)) \<and> ValueBool (InheritTags (snd state))
         then snd (DisableTagInheritance (Settings r) w) else w))
   \<and> (\<not> HasError (fst state) \<and> ValueBool (RemoveTags (snd state)) \<longrightarrow>
      world (Delete r state w) =
        (case CreateOrUpdateAtScope (TagsCl r) (''/subscriptions/'' @ SubscriptionID r)
                \<lparr>tr_Properties = Some \<lparr>tags_Tags = Some []\<rparr>\<rparr> w of
           (Inl err, w1) \<Rightarrow> w1
         | (Inr done, w1) \<Rightarrow>
             (if ValueBool (RemoteInheritTags (snd state)) \<and> ValueBool (InheritTags (snd state))
              then snd (DisableTagInheritance (Settings r) w1) else w1)))"
proof -
  have issued: "(\<not> ValueBool (RemoveTags (snd state)) \<longrightarrow>
      filter is_tag_write (calls (Delete r state w)) = [])
   \<and> (ValueBool (RemoveTags (snd state)) \<and> \<not> HasError (fst state) \<longrightarrow>
      filter is_tag_write (calls (Delete r state w)) =
        [Call_CreateOrUpdateAtScope (''/subscriptions/'' @ SubscriptionID r)
           \<lparr>tr_Properties = Some \<lparr>tags_Tags = Some []\<rparr>\<rparr>])
   \<and> (Call_DisableTagInheritance \<in> set (calls (Delete r state w)) \<longrightarrow>
      ValueBool (RemoteInheritTags (snd state)) \<and> ValueBool (InheritTags (snd state)))
   \<and> (ValueBool (RemoteInheritTags (snd state)) \<and> ValueBool (InheritTags (snd state)) \<and>
      \<not> HasError (fst state) \<and>
      (ValueBool (RemoveTags (snd state)) \<longrightarrow>
         fst (applyTags r (SubscriptionID r) [] w []) = None) \<longrightarrow>
      count_list (calls (Delete r state w)) Call_DisableTagInheritance = 1)"
    by (cases rule: applyTags_cases [of r "SubscriptionID r" "[]" w "[]"])
       (auto simp: Delete_def Delete_inheritance_def Let_def HasError_Append stop_def
             split: prod.splits sum.splits)
  from issued Delete_world_early [where state = state and r = r and w = w]
       Delete_world_keep [where state = state and r = r and w = w]
       Delete_world_clear [where state = state and r = r and w = w]
  show ?thesis by blast
qed

theorem Delete_calls_witness:
  "filter is_tag_write
        (calls (Delete sample_resource ([], sample_model True True) (sample_azure (configured True))))
     = [Call_CreateOrUpdateAtScope ''/subscriptions/s'' \<lparr>tr_Properties = Some \<lparr>tags_Tags = Some []\<rparr>\<rparr>]
   \<and> filter is_tag_write
        (calls (Delete sample_resource ([], sample_model True False) (sample_azure (configured True))))
     = []
   \<and> count_list
        (calls (Delete sample_resource ([], sample_model True False) (sample_azure (configured True))))
        Call_DisableTagInheritance = 1
   \<and> world (Delete sample_resource ([], sample_model True True) (sample_azure (configured True)))
     = \<lparr>az_tags = [], az_inheritance = configured False\<rparr>
   \<and> world (Delete sample_resource ([], sample_model True False) (sample_azure (configured True)))
     = \<lparr>az_tags = [(''tag1'', Some ''value1''), (''stale'', None)],
        az_inheritance = configured False\<rparr>"
proof -
  have keep: "\<not> ValueBool (RemoveTags (snd ([], sample_model True False)))"
    and remove: "ValueBool (RemoveTags (snd ([], sample_model True True)))"
    and both: "ValueBool (RemoteInheritTags (snd ([], sample_model True b)))
               \<and> ValueBool (InheritTags (snd ([], sample_model True b)))" for b
    by (simp_all add: sample_model_def)
  have dec: "\<not> HasError (fst ([], m))" for m :: "(string, string) go_map SubscriptionTagsResourceModel"
    by simp
  have scope: "''/subscriptions/'' @ SubscriptionID sample_resource = ''/subscriptions/s''"
    by (simp add: sample_resource_def)
  have put: "CreateOrUpdateAtScope (TagsCl sample_resource) ''/subscriptions/s''
               \<lparr>tr_Properties = Some \<lparr>tags_Tags = Some []\<rparr>\<rparr> w = (Inr (), w\<lparr>az_tags := []\<rparr>)" for w
    by (simp add: sample_resource_def)
  have dis: "snd (DisableTagInheritance (Settings sample_resource) w)
               = w\<lparr>az_inheritance := configured False\<rparr>" for w
    by (simp add: sample_resource_def sample_DisableTagInheritance)
  note kept = Delete_calls [of "([], sample_model True False)" sample_resource "sample_azure (configured True)"]
  note cleared = Delete_calls [of "([], sample_model True True)" sample_resource "sample_azure (configured True)"]
  have issued: "filter is_tag_write
        (calls (Delete sample_resource ([], sample_model True True) (sample_azure (configured True))))
     = [Call_CreateOrUpdateAtScope ''/subscriptions/s'' \<lparr>tr_Properties = Some \<lparr>tags_Tags = Some []\<rparr>\<rparr>]
   \<and> filter is_tag_write
        (calls (Delete sample_resource ([], sample_model True False) (sample_azure (configured True))))
     = []
   \<and> count_list
        (calls (Delete sample_resource ([], sample_model True False) (sample_azure (configured True))))
        Call_DisableTagInheritance = 1"
    using kept cleared keep remove both dec unfolding scope by simp
  have w1: "world (Delete sample_resource ([], sample_model True True) (sample_azure (configured True)))
     = \<lparr>az_tags = [], az_inheritance = configured False\<rparr>"
    using cleared remove dec both [of True] unfolding scope
    by (simp add: put dis sample_azure_def)
  have w2: "world (Delete sample_resource ([], sample_model True False) (sample_azure (configured True)))
     = \<lparr>az_tags = [(''tag1'', Some ''value1''), (''stale'', None)],
        az_inheritance = configured False\<rparr>"
    using kept keep dec both [of False]
    by (simp add: dis sample_azure_def)
  from issued w1 w2 show ?thesis by simp
qed







text \<open>
  C10. When \<open>Create\<close> or \<open>Update\<close> has applied the tags, the plan asks for inheritance and
  \<open>EnableTagInheritance\<close> answers without error, the state set is the plan itself if the
  identifier of the answer is empty; if it is not empty, \<open>inherit_tags\<close> is true and
  \<open>prefer_containers\<close> is the value the server reports. \<open>Update\<close> sets the same state as
  \<open>Create\<close>.
\<close>

theorem Create_Update_identifier:
  assumes "\<not> HasError (fst plan)" and "\<not> HasError (fst state)"
    and "\<not> HasError (fst (ElementsAs fw (Tags (snd plan))))"
    and "applyTags r (SubscriptionID r) (snd (ElementsAs fw (Tags (snd plan)))) w [] = (None, w1, cs)"
    and "ValueBool (InheritTags (snd plan))"
    and "EnableTagInheritance (Settings r) (ValueBool (PreferContainers (snd plan))) w1
           = (Inr tagInheritance, w2)"
  shows "State (Create fw r plan w) =
           Some (if resp_Id tagInheritance = [] then snd plan
                 else (snd plan)\<lparr>InheritTags := BoolValue True,
                        PreferContainers :=
                          BoolValue (PreferContainerTags (resp_Properties tagInheritance))\<rparr>)
       \<and> State (Update fw r plan state w) = State (Create fw r plan w)"
  using assms
  by (simp add: Create_def Update_def Let_def HasError_Append set_state_def sync_inheritance_def)

theorem Create_Update_identifier_witness:
  "State (Create sample_framework
            (sample_resource\<lparr>Settings := sample_settings\<lparr>Pipeline_Do := (\<lambda>req w. (Inr unconfigured, w))\<rparr>\<rparr>)
            ([], sample_model True True) (sample_azure unconfigured))
     = Some (sample_model True True)
   \<and> State (Update sample_framework
            (sample_resource\<lparr>Settings := sample_settings\<lparr>Pipeline_Do := (\<lambda>req w. (Inr unconfigured, w))\<rparr>\<rparr>)
            ([], sample_model True True) ([], sample_model False True) (sample_azure unconfigured))
     = Some (sample_model True True)"
proof -
  let ?r = "sample_resource\<lparr>Settings := sample_settings\<lparr>Pipeline_Do := (\<lambda>req w. (Inr unconfigured, w))\<rparr>\<rparr>"
  let ?w = "sample_azure unconfigured"
  have dec: "\<not> HasError (fst ([], m))" for m :: "(string, string) go_map SubscriptionTagsResourceModel"
    by simp
  have el: "\<not> HasError (fst (ElementsAs sample_framework (Tags (snd ([], sample_model True True)))))"
    by (simp add: sample_framework_def)
  have ap: "applyTags ?r (SubscriptionID ?r)
              (snd (ElementsAs sample_framework (Tags (snd ([], sample_model True True))))) ?w []
            = (None, ?w\<lparr>az_tags := [(''tag1'', Some ''value1''), (''tag2'', Some ''value2'')]\<rparr>,
               [Call_CreateOrUpdateAtScope ''/subscriptions/s''
                  \<lparr>tr_Properties = Some \<lparr>tags_Tags = Some [(''tag1'', Some ''value1''), (''tag2'', Some ''value2'')]\<rparr>\<rparr>])"
    by (simp add: applyTags_def sample_resource_def sample_framework_def sample_model_def Let_def)
  have inh: "ValueBool (InheritTags (snd ([], sample_model True True)))"
    by (simp add: sample_model_def)
  have en: "EnableTagInheritance (Settings ?r)
              (ValueBool (PreferContainers (snd ([], sample_model True True))))
              (?w\<lparr>az_tags := [(''tag1'', Some ''value1''), (''tag2'', Some ''value2'')]\<rparr>)
            = (Inr unconfigured, ?w\<lparr>az_tags := [(''tag1'', Some ''value1''), (''tag2'', Some ''value2'')]\<rparr>)"
    by (simp add: EnableTagInheritance_def createTagInheritanceRequest_def NewRequest_def Let_def
          MarshalAsJSON_def set_accept_def set_api_version_def handleTagInheritanceResponse_def
          sample_settings_def sample_resource_def)
  from Create_Update_identifier [OF dec dec el ap inh en, of "sample_model False True"]
  show ?thesis by (simp add: unconfigured_def)
qed

end
